theory Spec2Isabelle
  imports Main
begin

section \<open>The session relay (src/socket.io/creation.ts)\<close>

subsection \<open>Values, frames and the relay state\<close>

text \<open>
  A value as it travels on the wire. Event payloads, the lifecycle sentinel \<open>1\<close>,
  the objects \<open>{msg: ...}\<close> and \<open>{ok: true}\<close> are all values of this type.
\<close>

datatype jsval =
    JUndefined
  | JNull
  | JBool bool
  | JNum int
  | JStr string
  | JObj "(string \<times> jsval) list"

text \<open>
  An argument of a listener: either a plain value (\<open>JUndefined\<close> when the position is
  empty) or a function, namely the acknowledgement function that stands for the
  sender's callback, identified by its ack id. Either can turn up in either position.
\<close>

datatype arg = Val jsval | Fn nat

fun js_truthy :: "arg \<Rightarrow> bool" where
  "js_truthy (Fn k) = True"
| "js_truthy (Val JUndefined) = False"
| "js_truthy (Val JNull) = False"
| "js_truthy (Val (JBool b)) = b"
| "js_truthy (Val (JNum n)) = (n \<noteq> 0)"
| "js_truthy (Val (JStr s)) = (s \<noteq> [])"
| "js_truthy (Val (JObj kvs)) = True"

fun js_typeof :: "arg \<Rightarrow> string" where
  "js_typeof (Fn k) = ''function''"
| "js_typeof (Val JUndefined) = ''undefined''"
| "js_typeof (Val JNull) = ''object''"
| "js_typeof (Val (JBool b)) = ''boolean''"
| "js_typeof (Val (JNum n)) = ''number''"
| "js_typeof (Val (JStr s)) = ''string''"
| "js_typeof (Val (JObj kvs)) = ''object''"

type_synonym socket_id = string
type_synonym room = string

text \<open>
  A frame sent to a client: event name, payload, and the id of the acknowledgement the
  emitter asks for (\<open>None\<close> when the emit call passes no callback).
\<close>

datatype packet = Event string jsval "nat option"

text \<open>
  Modelled from the spec: a frame is an event tag with a payload, optionally carrying a
  completion callback (sections 3 and 6); the transport library's \<open>emit\<close>, which
  builds the frame from its arguments, is not among the sources. A function handed to
  \<open>emit\<close> after the tag is the frame's completion callback and not its payload.
\<close>

fun emit_frame :: "string \<Rightarrow> arg \<Rightarrow> packet" where
  "emit_frame name (Val v) = Event name v None"
| "emit_frame name (Fn k) = Event name JUndefined (Some k)"

datatype error = TypeError | RelayError

text \<open>
  The state the handlers act on: the connected sockets, the adapter's room table
  (\<open>io.adapter.rooms\<close>, a map from room name to its members in insertion order), the
  listeners a socket has registered (all of them close over the same \<open>session\<close>, which
  is what is recorded), the frames each client has been sent, the acknowledgement
  callbacks invoked (socket, ack id, argument) and the lines given to the logger.
\<close>

record relay_state =
  sockets :: "socket_id list"
  rooms :: "room \<rightharpoonup> socket_id list"
  listeners :: "socket_id \<rightharpoonup> room"
  inbox :: "socket_id \<Rightarrow> packet list"
  acks :: "(socket_id \<times> nat \<times> jsval) list"
  logs :: "string list"

definition init :: relay_state where
  "init = \<lparr>sockets = [], rooms = (\<lambda>r. None), listeners = (\<lambda>s. None),
            inbox = (\<lambda>s. []), acks = [], logs = []\<rparr>"

text \<open>
  A call either returns the new state or throws; the thrown error comes with the state
  reached at the throw, so that what happened before it stays visible.
\<close>

type_synonym outcome = "(error \<times> relay_state) + relay_state"

subsection \<open>The room registry and the transport\<close>

definition members :: "relay_state \<Rightarrow> room \<Rightarrow> socket_id list" where
  "members st r = (case rooms st r of None \<Rightarrow> [] | Some m \<Rightarrow> m)"

text \<open>
  Modelled from the spec: the Room Registry operation \<open>join\<close> (section 4.2), reached in
  the source as \<open>socket.join\<close>; the transport library that implements it is not among
  the sources. It adds the connection to the room's member set, is idempotent per
  connection, and creates the room on first join.
\<close>

definition join :: "room \<Rightarrow> socket_id \<Rightarrow> relay_state \<Rightarrow> relay_state" where
  "join r sid st =
     (if sid \<in> set (members st r) then st
      else st\<lparr>rooms := (rooms st)(r \<mapsto> members st r @ [sid])\<rparr>)"

text \<open>
  Modelled from the spec: the Room Registry operation \<open>leave\<close> (section 4.2), applied
  to every room of a connection when its transport session ends; a room whose member
  count reaches zero is discarded.
\<close>

definition leave_all :: "socket_id \<Rightarrow> relay_state \<Rightarrow> relay_state" where
  "leave_all sid st =
     st\<lparr>rooms := (\<lambda>r. case rooms st r of
                         None \<Rightarrow> None
                       | Some m \<Rightarrow> (if removeAll sid m = [] then None
                                   else Some (removeAll sid m)))\<rparr>"

definition deliver :: "socket_id list \<Rightarrow> packet \<Rightarrow> relay_state \<Rightarrow> relay_state" where
  "deliver rcpts p st =
     st\<lparr>inbox := (\<lambda>y. if y \<in> set rcpts then inbox st y @ [p] else inbox st y)\<rparr>"

text \<open>
  The broadcast primitive behind \<open>io.to(room).emit\<close> (nobody excepted) and
  \<open>socket.to(room).emit\<close> (the emitting socket excepted). The handlers take it as a
  parameter, so that a registry whose broadcast fails can be plugged in as well.
\<close>

type_synonym broadcast = "room \<Rightarrow> socket_id list \<Rightarrow> packet \<Rightarrow> relay_state \<Rightarrow> outcome"

text \<open>
  Modelled from the spec: the Room Registry operation \<open>broadcastExcept\<close> (section 4.2)
  of the in-process registry, which the transport library provides and the sources do
  not contain. It delivers the frame to every member of the room other than the excepted
  connections; with no other member it is a no-op and not an error.
\<close>

definition mem_broadcast :: broadcast where
  "mem_broadcast r except p st =
     Inr (deliver (filter (\<lambda>y. y \<notin> set except) (members st r)) p st)"

text \<open>
  Modelled from the spec: the relay error of section 7, an unexpected failure while
  forwarding a frame, such as a registry whose backing store is unavailable. No such
  registry is among the sources. The broadcast throws and delivers nothing.
\<close>

definition down_broadcast :: broadcast where
  "down_broadcast r except p st = Inl (RelayError, st)"

text \<open>Calling a value: an acknowledgement function records its argument; anything else
  is not callable.\<close>

definition call :: "arg \<Rightarrow> socket_id \<Rightarrow> jsval \<Rightarrow> relay_state \<Rightarrow> outcome" where
  "call callback sid v st =
     (case callback of
        Fn k \<Rightarrow> Inr (st\<lparr>acks := acks st @ [(sid, k, v)]\<rparr>)
      | Val x \<Rightarrow> Inl (TypeError, st))"

definition ok_true :: jsval where
  "ok_true = JObj [(''ok'', JBool True)]"

subsection \<open>The listeners of a joined socket (lines 19 to 62)\<close>

text \<open>
  The six application listeners are written out one by one, as the source has them;
  \<open>session\<close> is the value the enclosing connection handler read from the handshake.
\<close>

definition on_PGPS_READY ::
  "broadcast \<Rightarrow> room \<Rightarrow> socket_id \<Rightarrow> arg \<Rightarrow> arg \<Rightarrow> relay_state \<Rightarrow> outcome" where
  "on_PGPS_READY bc session sid data callback st =
     (let validCallback = (js_truthy callback \<and> js_typeof callback = ''function'') in
      case bc session [sid] (emit_frame ''PGPS_READY'' data) st of
        Inl e \<Rightarrow> Inl e
      | Inr st1 \<Rightarrow> (if validCallback then call callback sid ok_true st1 else Inr st1))"

definition on_PGPS_READY_RECEIVED ::
  "broadcast \<Rightarrow> room \<Rightarrow> socket_id \<Rightarrow> arg \<Rightarrow> arg \<Rightarrow> relay_state \<Rightarrow> outcome" where
  "on_PGPS_READY_RECEIVED bc session sid data callback st =
     (let validCallback = (js_truthy callback \<and> js_typeof callback = ''function'') in
      case bc session [sid] (emit_frame ''PGPS_READY_RECEIVED'' data) st of
        Inl e \<Rightarrow> Inl e
      | Inr st1 \<Rightarrow> (if validCallback then call callback sid ok_true st1 else Inr st1))"

definition on_RUN_NFT_MINT ::
  "broadcast \<Rightarrow> room \<Rightarrow> socket_id \<Rightarrow> arg \<Rightarrow> arg \<Rightarrow> relay_state \<Rightarrow> outcome" where
  "on_RUN_NFT_MINT bc session sid data callback st =
     (let validCallback = (js_truthy callback \<and> js_typeof callback = ''function'') in
      case bc session [sid] (emit_frame ''RUN_NFT_MINT'' data) st of
        Inl e \<Rightarrow> Inl e
      | Inr st1 \<Rightarrow> (if validCallback then call callback sid ok_true st1 else Inr st1))"

definition on_RUN_NFT_MINT_RECEIVED ::
  "broadcast \<Rightarrow> room \<Rightarrow> socket_id \<Rightarrow> arg \<Rightarrow> arg \<Rightarrow> relay_state \<Rightarrow> outcome" where
  "on_RUN_NFT_MINT_RECEIVED bc session sid data callback st =
     (let validCallback = (js_truthy callback \<and> js_typeof callback = ''function'') in
      case bc session [sid] (emit_frame ''RUN_NFT_MINT_RECEIVED'' data) st of
        Inl e \<Rightarrow> Inl e
      | Inr st1 \<Rightarrow> (if validCallback then call callback sid ok_true st1 else Inr st1))"

definition on_MINTING_NFT ::
  "broadcast \<Rightarrow> room \<Rightarrow> socket_id \<Rightarrow> arg \<Rightarrow> arg \<Rightarrow> relay_state \<Rightarrow> outcome" where
  "on_MINTING_NFT bc session sid data callback st =
     (let validCallback = (js_truthy callback \<and> js_typeof callback = ''function'') in
      case bc session [sid] (emit_frame ''MINTING_NFT'' data) st of
        Inl e \<Rightarrow> Inl e
      | Inr st1 \<Rightarrow> (if validCallback then call callback sid ok_true st1 else Inr st1))"

definition on_MINTING_NFT_RECEIVED ::
  "broadcast \<Rightarrow> room \<Rightarrow> socket_id \<Rightarrow> arg \<Rightarrow> arg \<Rightarrow> relay_state \<Rightarrow> outcome" where
  "on_MINTING_NFT_RECEIVED bc session sid data callback st =
     (let validCallback = (js_truthy callback \<and> js_typeof callback = ''function'') in
      case bc session [sid] (emit_frame ''MINTING_NFT_RECEIVED'' data) st of
        Inl e \<Rightarrow> Inl e
      | Inr st1 \<Rightarrow> (if validCallback then call callback sid ok_true st1 else Inr st1))"

text \<open>The three teardown listeners: a broadcast of the sentinel \<open>1\<close> and nothing else.\<close>

definition on_disconnect :: "broadcast \<Rightarrow> room \<Rightarrow> socket_id \<Rightarrow> relay_state \<Rightarrow> outcome" where
  "on_disconnect bc session sid st = bc session [sid] (Event ''USER_DISCONNECT'' (JNum 1) None) st"

definition on_timeout :: "broadcast \<Rightarrow> room \<Rightarrow> socket_id \<Rightarrow> relay_state \<Rightarrow> outcome" where
  "on_timeout bc session sid st = bc session [sid] (Event ''USER_TIMEOUT'' (JNum 1) None) st"

definition on_close :: "broadcast \<Rightarrow> room \<Rightarrow> socket_id \<Rightarrow> relay_state \<Rightarrow> outcome" where
  "on_close bc session sid st = bc session [sid] (Event ''USER_CLOSE'' (JNum 1) None) st"

text \<open>
  The listener table that the nine \<open>socket.on\<close> calls build: an event with no listener
  is dropped.
\<close>

definition on_event ::
  "broadcast \<Rightarrow> room \<Rightarrow> socket_id \<Rightarrow> string \<Rightarrow> arg \<Rightarrow> arg \<Rightarrow> relay_state \<Rightarrow> outcome" where
  "on_event bc session sid name data callback st =
     (if name = ''PGPS_READY'' then on_PGPS_READY bc session sid data callback st
      else if name = ''PGPS_READY_RECEIVED'' then on_PGPS_READY_RECEIVED bc session sid data callback st
      else if name = ''RUN_NFT_MINT'' then on_RUN_NFT_MINT bc session sid data callback st
      else if name = ''RUN_NFT_MINT_RECEIVED'' then on_RUN_NFT_MINT_RECEIVED bc session sid data callback st
      else if name = ''MINTING_NFT'' then on_MINTING_NFT bc session sid data callback st
      else if name = ''MINTING_NFT_RECEIVED'' then on_MINTING_NFT_RECEIVED bc session sid data callback st
      else if name = ''disconnect'' then on_disconnect bc session sid st
      else if name = ''timeout'' then on_timeout bc session sid st
      else if name = ''close'' then on_close bc session sid st
      else Inr st)"

text \<open>An event fires on a socket: its listeners run, if it has registered any.\<close>

definition fire ::
  "broadcast \<Rightarrow> socket_id \<Rightarrow> string \<Rightarrow> arg \<Rightarrow> arg \<Rightarrow> relay_state \<Rightarrow> outcome" where
  "fire bc sid name data callback st =
     (case listeners st sid of
        None \<Rightarrow> Inr st
      | Some session \<Rightarrow> on_event bc session sid name data callback st)"



text \<open>
  Modelled from the spec: the end of a transport session (sections 3 and 4.4), reached
  in the source as \<open>socket.disconnect()\<close>; the transport library is not among the
  sources. The connection is released and removed from its rooms, then its
  \<open>disconnect\<close> listeners run; for a connection already removed it is a no-op.
\<close>

definition socket_disconnect :: "broadcast \<Rightarrow> socket_id \<Rightarrow> relay_state \<Rightarrow> outcome" where
  "socket_disconnect bc sid st =
     (if sid \<notin> set (sockets st) then Inr st
      else fire bc sid ''disconnect'' (Val JUndefined) (Val JUndefined)
             (leave_all sid (st\<lparr>sockets := removeAll sid (sockets st)\<rparr>)))"

text \<open>
  Modelled from the spec: the end of a connection's transport by disconnect, timeout or
  close (sections 4.4 and 5), which the transport layer owns and the handler only reacts
  to; the transport library is not among the sources. As above, the connection is
  released and removed from its rooms and a second end of the same connection is a
  no-op. The signal the handler gets is the \<open>disconnect\<close> event with the cause as its
  argument: this is the one event by which the library reports the end of a transport,
  whatever the cause, and it fires no event named \<open>timeout\<close> or \<open>close\<close>.
\<close>

definition transport_ends :: "broadcast \<Rightarrow> socket_id \<Rightarrow> string \<Rightarrow> relay_state \<Rightarrow> outcome" where
  "transport_ends bc sid cause st =
     (if sid \<notin> set (sockets st) then Inr st
      else fire bc sid ''disconnect'' (Val (JStr cause)) (Val JUndefined)
             (leave_all sid (st\<lparr>sockets := removeAll sid (sockets st)\<rparr>)))"

subsection \<open>The connection handler (lines 7 to 18 and 63 to 66)\<close>

text \<open>The first branch: the failure frame, then the disconnect.\<close>

definition refuse :: "broadcast \<Rightarrow> socket_id \<Rightarrow> relay_state \<Rightarrow> outcome" where
  "refuse bc sid st =
     (case bc sid [] (Event ''CONNECTION_FAILURE''
                        (JObj [(''msg'', JStr ''Missing session argument'')]) None) st of
        Inl e \<Rightarrow> Inl e
      | Inr st1 \<Rightarrow> socket_disconnect bc sid st1)"

text \<open>
  The second branch. Line 18 calls the logger with
  \<open>'socked ' + socket.id + ' joined to session ' + session\<close> only: the closing
  parenthesis of the call comes before \<open>+ ' room size=' + ...size\<close>, so the size is
  read from the room table (which throws when the room is missing), appended to what the
  logger returned, and the resulting string is dropped.
\<close>

definition admit :: "broadcast \<Rightarrow> socket_id \<Rightarrow> string \<Rightarrow> relay_state \<Rightarrow> outcome" where
  "admit bc sid session st =
     (let st1 = join session sid st;
          st2 = st1\<lparr>logs := logs st1 @ [''socked '' @ sid @ '' joined to session '' @ session]\<rparr>
      in case rooms st2 session of
           None \<Rightarrow> Inl (TypeError, st2)
         | Some m \<Rightarrow>
             (let st3 = st2\<lparr>listeners := (listeners st2)(sid \<mapsto> session)\<rparr>
              in bc sid [] (Event ''CONNECTION_SUCCESS''
                              (JObj [(''msg'', JStr ''Connection successful'')]) None) st3))"

text \<open>
  The handshake parameter \<open>session\<close> is \<open>None\<close> when the query has no such key, and
  otherwise one string, which is how line 18 reads it (\<open>session as string\<close>); a key
  given several times is outside this model. The
  test is \<open>!session || session === "undefined" || session === ""\<close>, where \<open>!session\<close>
  holds of the missing and of the empty string.
\<close>

definition on_connection :: "broadcast \<Rightarrow> socket_id \<Rightarrow> string option \<Rightarrow> relay_state \<Rightarrow> outcome" where
  "on_connection bc sid session st =
     (case session of
        None \<Rightarrow> refuse bc sid st
      | Some s \<Rightarrow>
          (if s = [] \<or> s = ''undefined'' \<or> s = '''' then refuse bc sid st
           else admit bc sid s st))"

text \<open>
  Modelled from the spec: the arrival of a connection (sections 3 and 4.1), which the
  transport library performs before it calls the handler. The new connection gets its
  identifier, has no listener yet, and can be addressed on its own identifier, which is
  how the handler reaches "the connecting party" with \<open>io.to(socket.id)\<close>.
\<close>

definition accept :: "socket_id \<Rightarrow> relay_state \<Rightarrow> relay_state" where
  "accept sid st =
     join sid sid (st\<lparr>sockets := sid # removeAll sid (sockets st),
                     listeners := (listeners st)(sid := None)\<rparr>)"

definition connect :: "broadcast \<Rightarrow> socket_id \<Rightarrow> string option \<Rightarrow> relay_state \<Rightarrow> outcome" where
  "connect bc sid session st = on_connection bc sid session (accept sid st)"

subsection \<open>Tools for stating the properties\<close>

text \<open>The six application tags for which the handler registers a listener.\<close>

definition application_tags :: "string list" where
  "application_tags =
     [''PGPS_READY'', ''PGPS_READY_RECEIVED'', ''RUN_NFT_MINT'', ''RUN_NFT_MINT_RECEIVED'',
      ''MINTING_NFT'', ''MINTING_NFT_RECEIVED'']"

text \<open>
  The shape the six application listeners share, with the event name as a parameter;
  lemma \<open>on_event_application\<close> below shows that each of them is this function at its own
  tag.
\<close>

definition forward_and_ack ::
  "broadcast \<Rightarrow> room \<Rightarrow> socket_id \<Rightarrow> string \<Rightarrow> arg \<Rightarrow> arg \<Rightarrow> relay_state \<Rightarrow> outcome" where
  "forward_and_ack bc session sid name data callback st =
     (case bc session [sid] (emit_frame name data) st of
        Inl e \<Rightarrow> Inl e
      | Inr st1 \<Rightarrow> (case callback of
                     Fn k \<Rightarrow> call callback sid ok_true st1
                   | Val v \<Rightarrow> Inr st1))"

text \<open>The three events with a teardown listener, and the frame each listener emits.\<close>

definition teardown_events :: "string list" where
  "teardown_events = [''disconnect'', ''timeout'', ''close'']"

definition lifecycle_frame :: "string \<Rightarrow> packet" where
  "lifecycle_frame name =
     Event (if name = ''disconnect'' then ''USER_DISCONNECT''
            else if name = ''timeout'' then ''USER_TIMEOUT''
            else ''USER_CLOSE'') (JNum 1) None"

text \<open>The state a call ends in, whether it returned or threw.\<close>

fun final :: "outcome \<Rightarrow> relay_state" where
  "final (Inl (e, st)) = st"
| "final (Inr st) = st"

fun thrown :: "outcome \<Rightarrow> error option" where
  "thrown (Inl (e, st)) = Some e"
| "thrown (Inr st) = None"

text \<open>Several events firing on one socket, one after the other; a throw ends the run.\<close>

fun fire_seq :: "broadcast \<Rightarrow> socket_id \<Rightarrow> string list \<Rightarrow> relay_state \<Rightarrow> outcome" where
  "fire_seq bc sid [] st = Inr st"
| "fire_seq bc sid (name # names) st =
     (case fire bc sid name (Val JUndefined) (Val JUndefined) st of
        Inl e \<Rightarrow> Inl e
      | Inr st1 \<Rightarrow> fire_seq bc sid names st1)"

text \<open>
  Two concrete states: connection \<open>X\<close> alone in session \<open>abc123\<close>, and \<open>X\<close> and \<open>Y\<close>
  paired in it. Lemmas \<open>joined_X_reached\<close> and \<open>paired_reached\<close> show that the handler
  produces them from the empty relay.
\<close>

definition success_frame :: packet where
  "success_frame = Event ''CONNECTION_SUCCESS'' (JObj [(''msg'', JStr ''Connection successful'')]) None"

definition joined_X :: relay_state where
  "joined_X =
     \<lparr>sockets = [''X''],
      rooms = [''X'' \<mapsto> [''X''], ''abc123'' \<mapsto> [''X'']],
      listeners = [''X'' \<mapsto> ''abc123''],
      inbox = (\<lambda>y. if y = ''X'' then [success_frame] else []),
      acks = [],
      logs = [''socked X joined to session abc123'']\<rparr>"

definition paired :: relay_state where
  "paired =
     \<lparr>sockets = [''Y'', ''X''],
      rooms = [''X'' \<mapsto> [''X''], ''Y'' \<mapsto> [''Y''], ''abc123'' \<mapsto> [''X'', ''Y'']],
      listeners = [''X'' \<mapsto> ''abc123'', ''Y'' \<mapsto> ''abc123''],
      inbox = (\<lambda>y. if y = ''X'' \<or> y = ''Y'' then [success_frame] else []),
      acks = [],
      logs = [''socked X joined to session abc123'', ''socked Y joined to session abc123'']\<rparr>"

section \<open>The user service (src/api/services/user.ts)\<close>

datatype service_error = Error string

subsection \<open>getAllUsers (lines 30 to 46)\<close>

text \<open>
  The fields of the pagination plugin's result that matter here; the plugin reports
  both \<open>hasPrevPage\<close> and \<open>hasNextPage\<close>.
\<close>

record 'u paginate_result =
  docs :: "'u list"
  totalDocs :: int
  hasPrevPage :: bool
  hasNextPage :: bool

record 'u custom_response =
  totalCount :: int
  data :: "'u list"
  hasNextPage :: bool
  hasPreviousPage :: bool

text \<open>
  \<open>paginate page limit\<close> stands for \<open>UserModel.paginate({artist: true}, {page, limit})\<close>,
  which returns a result or throws. An omitted argument takes its default, 1 or 15.
\<close>

definition getAllUsers ::
  "(int \<Rightarrow> int \<Rightarrow> 'e + 'u paginate_result) \<Rightarrow> int option \<Rightarrow> int option
     \<Rightarrow> service_error + 'u custom_response" where
  "getAllUsers paginate page limit =
     (let page = (case page of None \<Rightarrow> 1 | Some p \<Rightarrow> p);
          limit = (case limit of None \<Rightarrow> 15 | Some l \<Rightarrow> l)
      in case paginate page limit of
           Inl err \<Rightarrow> Inl (Error ''Users can't be fetched'')
         | Inr res \<Rightarrow>
             Inr \<lparr>totalCount = totalDocs res,
                  data = docs res,
                  hasNextPage = paginate_result.hasNextPage res,
                  hasPreviousPage = paginate_result.hasNextPage res\<rparr>)"

subsection \<open>getAccountBalance (lines 138 to 150)\<close>

record account =
  capsAmount :: string
  tiimeAmount :: string

text \<open>
  The indexer's answer: \<open>None\<close> stands for a missing (null or undefined) result, object
  or list.
\<close>

record account_entities =
  nodes :: "account list option"

record account_response =
  accountEntities :: "account_entities option"

text \<open>
  \<open>indexer id'\<close> stands for \<open>request(indexerUrl, QueriesBuilder.capsBalanceFromId(id))\<close>,
  which returns an answer or throws. The test
  \<open>result && result.accountEntities && result.accountEntities.nodes && result.accountEntities.nodes.length\<close>
  fails at the first missing part, and at a list of length 0.
\<close>

definition getAccountBalance ::
  "(string \<Rightarrow> 'e + account_response option) \<Rightarrow> string \<Rightarrow> service_error + account" where
  "getAccountBalance indexer id' =
     (case indexer id' of
        Inl err \<Rightarrow> Inl (Error ''Couldn't get caps balance'')
      | Inr result \<Rightarrow>
          (case result of
             None \<Rightarrow> Inr \<lparr>capsAmount = ''0'', tiimeAmount = ''0''\<rparr>
           | Some r \<Rightarrow>
               (case accountEntities r of
                  None \<Rightarrow> Inr \<lparr>capsAmount = ''0'', tiimeAmount = ''0''\<rparr>
                | Some ents \<Rightarrow>
                    (case nodes ents of
                       None \<Rightarrow> Inr \<lparr>capsAmount = ''0'', tiimeAmount = ''0''\<rparr>
                     | Some ns \<Rightarrow>
                         (if length ns \<noteq> 0 then Inr (ns ! 0)
                          else Inr \<lparr>capsAmount = ''0'', tiimeAmount = ''0''\<rparr>)))))"

section \<open>Properties of the session relay\<close>

subsection \<open>What the registry operations do to each part of the state\<close>

lemma members_upd [simp]:
  "members (st\<lparr>sockets := a\<rparr>) = members st"
  "members (st\<lparr>listeners := b\<rparr>) = members st"
  "members (st\<lparr>inbox := c\<rparr>) = members st"
  "members (st\<lparr>acks := d\<rparr>) = members st"
  "members (st\<lparr>logs := e\<rparr>) = members st"
  by (simp_all add: members_def fun_eq_iff)

lemma members_join:
  "members (join r sid st) r' =
     (if r' = r \<and> sid \<notin> set (members st r) then members st r @ [sid] else members st r')"
  by (simp add: join_def members_def)

lemma join_fields [simp]:
  "sockets (join r sid st) = sockets st"
  "listeners (join r sid st) = listeners st"
  "inbox (join r sid st) = inbox st"
  "acks (join r sid st) = acks st"
  "logs (join r sid st) = logs st"
  by (simp_all add: join_def)

lemma rooms_join_own: "rooms (join r sid st) r = Some (members (join r sid st) r)"
  by (cases "rooms st r") (auto simp: join_def members_def)

lemma members_leave_all: "members (leave_all sid st) r = removeAll sid (members st r)"
  by (simp add: leave_all_def members_def split: option.splits)

lemma leave_all_fields [simp]:
  "sockets (leave_all sid st) = sockets st"
  "listeners (leave_all sid st) = listeners st"
  "inbox (leave_all sid st) = inbox st"
  "acks (leave_all sid st) = acks st"
  "logs (leave_all sid st) = logs st"
  by (simp_all add: leave_all_def)

lemma deliver_fields [simp]:
  "sockets (deliver rs p st) = sockets st"
  "listeners (deliver rs p st) = listeners st"
  "rooms (deliver rs p st) = rooms st"
  "members (deliver rs p st) = members st"
  "acks (deliver rs p st) = acks st"
  "logs (deliver rs p st) = logs st"
  by (simp_all add: deliver_def)

lemma inbox_deliver:
  "inbox (deliver rs p st) y = (if y \<in> set rs then inbox st y @ [p] else inbox st y)"
  by (simp add: deliver_def)

lemma accept_fields [simp]:
  "sockets (accept sid st) = sid # removeAll sid (sockets st)"
  "listeners (accept sid st) = (listeners st)(sid := None)"
  "inbox (accept sid st) = inbox st"
  "acks (accept sid st) = acks st"
  "logs (accept sid st) = logs st"
  by (simp_all add: accept_def)

lemma members_accept:
  "members (accept sid st) r =
     (if r = sid \<and> sid \<notin> set (members st sid) then members st sid @ [sid] else members st r)"
  by (simp add: accept_def members_join)

lemma set_members_accept_own:
  "set (members (accept sid st) sid) = insert sid (set (members st sid))"
  by (auto simp: members_accept)

subsection \<open>The two branches of the connection handler\<close>

lemma refuse_mem:
  "refuse mem_broadcast sid st =
     socket_disconnect mem_broadcast sid
       (deliver (members st sid)
          (Event ''CONNECTION_FAILURE'' (JObj [(''msg'', JStr ''Missing session argument'')]) None) st)"
  by (simp add: refuse_def mem_broadcast_def)

lemma admit_mem:
  "admit mem_broadcast sid s st =
     Inr (deliver (members (join s sid st) sid) success_frame
            ((join s sid st)\<lparr>logs := logs st @ [''socked '' @ sid @ '' joined to session '' @ s],
                              listeners := (listeners st)(sid \<mapsto> s)\<rparr>))"
  by (simp add: admit_def mem_broadcast_def rooms_join_own success_frame_def Let_def)

lemma on_connection_valid:
  "s \<noteq> '''' \<Longrightarrow> s \<noteq> ''undefined'' \<Longrightarrow> on_connection bc sid (Some s) st = admit bc sid s st"
  by (simp add: on_connection_def)

lemma on_connection_invalid:
  "session = None \<or> session = Some '''' \<or> session = Some ''undefined'' \<Longrightarrow>
   on_connection bc sid session st = refuse bc sid st"
  by (auto simp: on_connection_def)

text \<open>
  C2. A connection attempt whose session parameter is absent, empty or the string
  "undefined" is refused: the connecting party is sent exactly one frame,
  CONNECTION_FAILURE with a non-empty msg (it reaches the connecting party and whoever
  else is addressed by its identifier, and nobody else), the connection is then
  disconnected, it is a member of no room and has registered no listener.
\<close>

theorem refuse_missing_session:
  assumes "session = None \<or> session = Some '''' \<or> session = Some ''undefined''"
  shows "\<exists>st'. connect mem_broadcast sid session st = Inr st'
     \<and> (\<exists>m. m \<noteq> [] \<and> (\<forall>y. inbox st' y =
            (if y = sid \<or> y \<in> set (members st sid)
             then inbox st y @ [Event ''CONNECTION_FAILURE'' (JObj [(''msg'', JStr m)]) None]
             else inbox st y)))
     \<and> sid \<notin> set (sockets st')
     \<and> (\<forall>r. sid \<notin> set (members st' r))
     \<and> listeners st' sid = None"
proof -
  let ?F = "Event ''CONNECTION_FAILURE'' (JObj [(''msg'', JStr ''Missing session argument'')]) None"
  let ?st1 = "deliver (members (accept sid st) sid) ?F (accept sid st)"
  let ?st2 = "leave_all sid (?st1\<lparr>sockets := removeAll sid (sockets ?st1)\<rparr>)"
  have r: "connect mem_broadcast sid session st = Inr ?st2"
    using assms
    by (simp add: connect_def on_connection_invalid refuse_mem socket_disconnect_def fire_def)
  have i: "\<forall>y. inbox ?st2 y = (if y = sid \<or> y \<in> set (members st sid) then inbox st y @ [?F] else inbox st y)"
    by (simp add: inbox_deliver set_members_accept_own)
  have s: "sid \<notin> set (sockets ?st2)" by simp
  have m: "\<forall>r. sid \<notin> set (members ?st2 r)" by (simp add: members_leave_all)
  have l: "listeners ?st2 sid = None" by simp
  have n: "''Missing session argument'' \<noteq> []" by simp
  show ?thesis unfolding r using i s m l n by blast
qed

theorem refuse_missing_session_witness:
  "inbox (final (connect mem_broadcast ''Z'' (Some '''') init)) ''Z''
     = [Event ''CONNECTION_FAILURE'' (JObj [(''msg'', JStr ''Missing session argument'')]) None]
   \<and> thrown (connect mem_broadcast ''Z'' (Some '''') init) = None
   \<and> sockets (final (connect mem_broadcast ''Z'' (Some '''') init)) = []
   \<and> rooms (final (connect mem_broadcast ''Z'' (Some '''') init)) ''Z'' = None
   \<and> rooms (final (connect mem_broadcast ''Z'' (Some '''') init)) '''' = None"
proof -
  have h: "Some '''' = None \<or> Some '''' = Some '''' \<or> Some '''' = Some ''undefined''" by simp
  from refuse_missing_session [OF h, of "''Z''" init]
  obtain st' where c: "connect mem_broadcast ''Z'' (Some '''') init = Inr st'"
    and z: "''Z'' \<notin> set (sockets st')" by blast
  have e: "connect mem_broadcast ''Z'' (Some '''') init
     = Inr (leave_all ''Z'' ((deliver (members (accept ''Z'' init) ''Z'')
          (Event ''CONNECTION_FAILURE'' (JObj [(''msg'', JStr ''Missing session argument'')]) None)
          (accept ''Z'' init))\<lparr>sockets := []\<rparr>))"
    by (simp add: connect_def on_connection_def refuse_mem socket_disconnect_def fire_def init_def)
  from c e have s: "st' = leave_all ''Z'' ((deliver (members (accept ''Z'' init) ''Z'')
          (Event ''CONNECTION_FAILURE'' (JObj [(''msg'', JStr ''Missing session argument'')]) None)
          (accept ''Z'' init))\<lparr>sockets := []\<rparr>)" by simp
  show ?thesis using z unfolding e s
    by (simp add: inbox_deliver members_accept init_def members_def leave_all_def accept_def join_def)
qed

text \<open>
  C6. A connection attempt with a valid session value (present, not empty, not the
  string "undefined") joins the room keyed by that value and is then sent exactly one
  frame, CONNECTION_SUCCESS with a payload of the shape {msg: string}; it stays
  connected, with its listeners registered for that session.
\<close>

theorem admit_valid_session:
  assumes "s \<noteq> ''''" and "s \<noteq> ''undefined''"
  shows "\<exists>st'. connect mem_broadcast sid (Some s) st = Inr st'
     \<and> sid \<in> set (members st' s)
     \<and> (\<exists>m. inbox st' sid = inbox st sid @ [Event ''CONNECTION_SUCCESS'' (JObj [(''msg'', JStr m)]) None])
     \<and> sid \<in> set (sockets st')
     \<and> listeners st' sid = Some s"
proof -
  let ?a = "accept sid st"
  let ?st' = "deliver (members (join s sid ?a) sid) success_frame
            ((join s sid ?a)\<lparr>logs := logs ?a @ [''socked '' @ sid @ '' joined to session '' @ s],
                              listeners := (listeners ?a)(sid \<mapsto> s)\<rparr>)"
  have c: "connect mem_broadcast sid (Some s) st = Inr ?st'"
    using assms by (simp add: connect_def on_connection_valid admit_mem)
  have own: "sid \<in> set (members (join s sid ?a) sid)"
    by (simp add: members_join members_accept)
  have m: "sid \<in> set (members ?st' s)"
    by (simp add: members_join)
  have i: "inbox ?st' sid = inbox st sid @ [Event ''CONNECTION_SUCCESS'' (JObj [(''msg'', JStr ''Connection successful'')]) None]"
    using own by (simp add: inbox_deliver success_frame_def)
  have k: "sid \<in> set (sockets ?st')" by simp
  have l: "listeners ?st' sid = Some s" by simp
  show ?thesis unfolding c using m i k l by blast
qed

lemma joined_X_reached: "connect mem_broadcast ''X'' (Some ''abc123'') init = Inr joined_X"
  by (simp add: connect_def on_connection_def admit_mem)
     (auto simp: joined_X_def init_def accept_def join_def deliver_def members_def success_frame_def fun_eq_iff)

lemma paired_reached: "connect mem_broadcast ''Y'' (Some ''abc123'') joined_X = Inr paired"
  by (simp add: connect_def on_connection_def admit_mem)
     (auto simp: joined_X_def paired_def accept_def join_def deliver_def members_def success_frame_def fun_eq_iff)

theorem admit_valid_session_witness:
  "''abc123'' \<noteq> '''' \<and> ''abc123'' \<noteq> ''undefined''
   \<and> connect mem_broadcast ''Y'' (Some ''abc123'') joined_X = Inr paired
   \<and> members paired ''abc123'' = [''X'', ''Y'']
   \<and> inbox paired ''Y'' = [Event ''CONNECTION_SUCCESS'' (JObj [(''msg'', JStr ''Connection successful'')]) None]
   \<and> listeners paired ''Y'' = Some ''abc123''"
proof -
  have h1: "''abc123'' \<noteq> ''''" and h2: "''abc123'' \<noteq> ''undefined''" by simp_all
  from admit_valid_session [OF h1 h2, of "''Y''" joined_X]
  obtain st' where c: "connect mem_broadcast ''Y'' (Some ''abc123'') joined_X = Inr st'"
    and l: "listeners st' ''Y'' = Some ''abc123''" by blast
  from c have "st' = paired" by (simp add: paired_reached)
  with c l show ?thesis
    by (simp add: paired_def members_def success_frame_def)
qed

subsection \<open>The application listeners\<close>

lemma valid_callback_iff:
  "(js_truthy callback \<and> js_typeof callback = ''function'') = (\<exists>k. callback = Fn k)"
proof (cases callback)
  case (Val v)
  then show ?thesis by (cases v) simp_all
next
  case (Fn k)
  then show ?thesis by simp
qed

lemma listeners_forward_and_ack:
  "on_PGPS_READY bc s sid payload cb st = forward_and_ack bc s sid ''PGPS_READY'' payload cb st"
  "on_PGPS_READY_RECEIVED bc s sid payload cb st = forward_and_ack bc s sid ''PGPS_READY_RECEIVED'' payload cb st"
  "on_RUN_NFT_MINT bc s sid payload cb st = forward_and_ack bc s sid ''RUN_NFT_MINT'' payload cb st"
  "on_RUN_NFT_MINT_RECEIVED bc s sid payload cb st = forward_and_ack bc s sid ''RUN_NFT_MINT_RECEIVED'' payload cb st"
  "on_MINTING_NFT bc s sid payload cb st = forward_and_ack bc s sid ''MINTING_NFT'' payload cb st"
  "on_MINTING_NFT_RECEIVED bc s sid payload cb st = forward_and_ack bc s sid ''MINTING_NFT_RECEIVED'' payload cb st"
  unfolding on_PGPS_READY_def on_PGPS_READY_RECEIVED_def on_RUN_NFT_MINT_def
    on_RUN_NFT_MINT_RECEIVED_def on_MINTING_NFT_def on_MINTING_NFT_RECEIVED_def
    forward_and_ack_def valid_callback_iff Let_def
  by (cases cb; simp split: sum.splits)+

lemma on_event_application:
  assumes "tag \<in> set application_tags"
  shows "on_event bc s sid tag payload cb st = forward_and_ack bc s sid tag payload cb st"
proof -
  from assms have "tag = ''PGPS_READY'' \<or> tag = ''PGPS_READY_RECEIVED''
    \<or> tag = ''RUN_NFT_MINT'' \<or> tag = ''RUN_NFT_MINT_RECEIVED''
    \<or> tag = ''MINTING_NFT'' \<or> tag = ''MINTING_NFT_RECEIVED''"
    by (simp add: application_tags_def)
  then show ?thesis
    by (elim disjE) (simp_all add: on_event_def listeners_forward_and_ack)
qed




lemma paired_facts:
  "listeners paired ''X'' = Some ''abc123''"
  "members paired ''abc123'' = [''X'', ''Y'']"
  "inbox paired ''X'' = [success_frame]"
  "inbox paired ''Y'' = [success_frame]"
  "acks paired = []"
  "sockets paired = [''Y'', ''X'']"
  by (simp_all add: paired_def members_def)


subsection \<open>The acknowledgment\<close>







subsection \<open>The teardown listeners\<close>

lemma on_event_teardown:
  assumes "name \<in> set teardown_events"
  shows "on_event bc s sid name payload cb st = bc s [sid] (lifecycle_frame name) st"
proof -
  from assms have "name = ''disconnect'' \<or> name = ''timeout'' \<or> name = ''close''"
    by (simp add: teardown_events_def)
  then show ?thesis
    by (elim disjE)
       (simp_all add: on_event_def on_disconnect_def on_timeout_def on_close_def lifecycle_frame_def)
qed

lemma fire_teardown_mem:
  assumes "listeners st sid = Some s" and "name \<in> set teardown_events"
  shows "fire mem_broadcast sid name payload cb st =
           Inr (deliver (filter (\<lambda>y. y \<noteq> sid) (members st s)) (lifecycle_frame name) st)"
  using assms by (simp add: fire_def on_event_teardown mem_broadcast_def)

text \<open>
  What each teardown listener does when its event fires: every other member of the
  room is sent the listener's frame once, with the payload 1 and no request for an
  acknowledgment; nobody else is sent anything and no callback is invoked.
\<close>

lemma teardown_event_notifies:
  assumes "listeners st sid = Some s"
    and "(name, frame) \<in> set [(''disconnect'', ''USER_DISCONNECT''),
                              (''timeout'', ''USER_TIMEOUT''),
                              (''close'', ''USER_CLOSE'')]"
  shows "\<exists>st'. fire mem_broadcast sid name payload cb st = Inr st'
     \<and> (\<forall>y. inbox st' y =
           (if y \<in> set (members st s) \<and> y \<noteq> sid then inbox st y @ [Event frame (JNum 1) None]
            else inbox st y))
     \<and> acks st' = acks st"
proof -
  from assms(2) have n: "name \<in> set teardown_events"
    by (auto simp: teardown_events_def)
  from assms(2) have l: "lifecycle_frame name = Event frame (JNum 1) None"
    by (auto simp: lifecycle_frame_def)
  show ?thesis
    unfolding fire_teardown_mem [OF assms(1) n] l
    by (simp add: inbox_deliver)
qed

text \<open>
  The transport's own disconnect on a joined connection: the connection is out of its
  room when the \<open>disconnect\<close> listener runs, and the members that remain get
  USER_DISCONNECT.
\<close>

lemma socket_disconnect_joined:
  assumes "sid \<in> set (sockets st)" and "listeners st sid = Some s"
  shows "socket_disconnect mem_broadcast sid st =
           Inr (deliver (removeAll sid (members st s)) (Event ''USER_DISCONNECT'' (JNum 1) None)
                  (leave_all sid (st\<lparr>sockets := removeAll sid (sockets st)\<rparr>)))"
proof -
  have f: "filter (\<lambda>y. y \<noteq> sid) (removeAll sid (members st s)) = removeAll sid (members st s)"
    by (induction "members st s") auto
  have t: "''disconnect'' \<in> set teardown_events" by (simp add: teardown_events_def)
  show ?thesis using assms
    by (simp add: socket_disconnect_def fire_def on_event_teardown [OF t] mem_broadcast_def
        members_leave_all f lifecycle_frame_def)
qed

lemma transport_ends_joined:
  assumes "sid \<in> set (sockets st)" and "listeners st sid = Some s"
  shows "transport_ends mem_broadcast sid cause st =
           Inr (deliver (removeAll sid (members st s)) (Event ''USER_DISCONNECT'' (JNum 1) None)
                  (leave_all sid (st\<lparr>sockets := removeAll sid (sockets st)\<rparr>)))"
proof -
  have f: "filter (\<lambda>y. y \<noteq> sid) (removeAll sid (members st s)) = removeAll sid (members st s)"
    by (induction "members st s") auto
  have t: "''disconnect'' \<in> set teardown_events" by (simp add: teardown_events_def)
  show ?thesis using assms
    by (simp add: transport_ends_def fire_def on_event_teardown [OF t] mem_broadcast_def
        members_leave_all f lifecycle_frame_def)
qed

text \<open>
  What the end of a transport does. When the transport of a joined connection ends,
  whatever the cause, the connection leaves its room and every member that remains is
  sent exactly one lifecycle frame, USER_DISCONNECT, with the payload 1 and no request
  for an acknowledgment; nobody else is sent anything, no callback is invoked, and a
  further end of the same connection does nothing. USER_TIMEOUT and USER_CLOSE are what
  the other members are sent when an event named timeout or close fires on the
  connection, which the end of a transport does not do.
\<close>

lemma transport_end_notifies_room:
  assumes "sid \<in> set (sockets st)" and "listeners st sid = Some s"
  shows "(\<exists>st'. transport_ends mem_broadcast sid cause st = Inr st'
       \<and> (\<forall>y. inbox st' y =
             (if y \<in> set (members st s) \<and> y \<noteq> sid
              then inbox st y @ [Event ''USER_DISCONNECT'' (JNum 1) None]
              else inbox st y))
       \<and> members st' s = removeAll sid (members st s)
       \<and> acks st' = acks st
       \<and> transport_ends mem_broadcast sid cause' st' = Inr st')
     \<and> (\<exists>st'. fire mem_broadcast sid ''timeout'' payload cb st = Inr st'
       \<and> (\<forall>y. inbox st' y =
             (if y \<in> set (members st s) \<and> y \<noteq> sid
              then inbox st y @ [Event ''USER_TIMEOUT'' (JNum 1) None]
              else inbox st y))
       \<and> acks st' = acks st)
     \<and> (\<exists>st'. fire mem_broadcast sid ''close'' payload cb st = Inr st'
       \<and> (\<forall>y. inbox st' y =
             (if y \<in> set (members st s) \<and> y \<noteq> sid
              then inbox st y @ [Event ''USER_CLOSE'' (JNum 1) None]
              else inbox st y))
       \<and> acks st' = acks st)"
proof (intro conjI)
  let ?st' = "deliver (removeAll sid (members st s)) (Event ''USER_DISCONNECT'' (JNum 1) None)
                  (leave_all sid (st\<lparr>sockets := removeAll sid (sockets st)\<rparr>))"
  have e: "transport_ends mem_broadcast sid cause st = Inr ?st'"
    by (rule transport_ends_joined [OF assms])
  have i: "\<forall>y. inbox ?st' y =
             (if y \<in> set (members st s) \<and> y \<noteq> sid
              then inbox st y @ [Event ''USER_DISCONNECT'' (JNum 1) None]
              else inbox st y)"
    by (simp add: inbox_deliver)
  have m: "members ?st' s = removeAll sid (members st s)"
    by (simp add: members_leave_all)
  have a: "acks ?st' = acks st" by simp
  have again: "transport_ends mem_broadcast sid cause' ?st' = Inr ?st'"
    by (simp add: transport_ends_def)
  show "\<exists>st'. transport_ends mem_broadcast sid cause st = Inr st'
       \<and> (\<forall>y. inbox st' y =
             (if y \<in> set (members st s) \<and> y \<noteq> sid
              then inbox st y @ [Event ''USER_DISCONNECT'' (JNum 1) None]
              else inbox st y))
       \<and> members st' s = removeAll sid (members st s)
       \<and> acks st' = acks st
       \<and> transport_ends mem_broadcast sid cause' st' = Inr st'"
    unfolding e using i m a again by blast
next
  show "\<exists>st'. fire mem_broadcast sid ''timeout'' payload cb st = Inr st'
       \<and> (\<forall>y. inbox st' y =
             (if y \<in> set (members st s) \<and> y \<noteq> sid
              then inbox st y @ [Event ''USER_TIMEOUT'' (JNum 1) None]
              else inbox st y))
       \<and> acks st' = acks st"
    by (rule teardown_event_notifies [OF assms(2)]) simp
next
  show "\<exists>st'. fire mem_broadcast sid ''close'' payload cb st = Inr st'
       \<and> (\<forall>y. inbox st' y =
             (if y \<in> set (members st s) \<and> y \<noteq> sid
              then inbox st y @ [Event ''USER_CLOSE'' (JNum 1) None]
              else inbox st y))
       \<and> acks st' = acks st"
    by (rule teardown_event_notifies [OF assms(2)]) simp
qed

text \<open>
  C5 does not hold of the code. \<open>X\<close> and \<open>Y\<close> are paired in session \<open>abc123\<close> and
  the transport of \<open>X\<close> ends by a ping timeout. The listener registered for
  \<open>timeout\<close> (lines 55 to 58) does not run, because the event that reports the end of a
  transport is \<open>disconnect\<close>: \<open>Y\<close>, the member that remains, is sent
  USER_DISCONNECT and not USER_TIMEOUT.
\<close>

theorem transport_timeout_sends_disconnect:
  "inbox (final (transport_ends mem_broadcast ''X'' ''ping timeout'' paired)) ''Y''
     = [success_frame, Event ''USER_DISCONNECT'' (JNum 1) None]
   \<and> Event ''USER_TIMEOUT'' (JNum 1) None
       \<notin> set (inbox (final (transport_ends mem_broadcast ''X'' ''ping timeout'' paired)) ''Y'')"
proof -
  have h1: "''X'' \<in> set (sockets paired)" by (simp add: paired_facts)
  have h2: "listeners paired ''X'' = Some ''abc123''" by (simp add: paired_facts)
  show ?thesis
    by (simp add: transport_ends_joined [OF h1 h2] inbox_deliver paired_facts success_frame_def)
qed

text \<open>
  C4, as the code has it. The three teardown listeners keep no record of earlier
  signals and remove nothing from the room: every disconnect, timeout or close event
  that fires on a joined connection sends its own lifecycle frame to the other members
  of the room, so a run of n teardown events gives each of them n lifecycle frames, in
  order, and leaves the room table as it was.
\<close>

theorem teardown_events_each_notify:
  assumes "listeners st sid = Some s" and "set names \<subseteq> set teardown_events"
  shows "\<exists>st'. fire_seq mem_broadcast sid names st = Inr st'
     \<and> (\<forall>y. inbox st' y =
           (if y \<in> set (members st s) \<and> y \<noteq> sid then inbox st y @ map lifecycle_frame names
            else inbox st y))
     \<and> members st' = members st"
  using assms
proof (induction names arbitrary: st)
  case Nil
  then show ?case by simp
next
  case (Cons name names)
  let ?st1 = "deliver (filter (\<lambda>y. y \<noteq> sid) (members st s)) (lifecycle_frame name) st"
  from Cons.prems have n: "name \<in> set teardown_events" and ns: "set names \<subseteq> set teardown_events"
    by simp_all
  have f: "fire mem_broadcast sid name (Val JUndefined) (Val JUndefined) st = Inr ?st1"
    by (rule fire_teardown_mem [OF Cons.prems(1) n])
  have l: "listeners ?st1 sid = Some s" using Cons.prems(1) by simp
  from Cons.IH [OF l ns] obtain st' where
    r: "fire_seq mem_broadcast sid names ?st1 = Inr st'"
    and i: "\<forall>y. inbox st' y =
           (if y \<in> set (members ?st1 s) \<and> y \<noteq> sid then inbox ?st1 y @ map lifecycle_frame names
            else inbox ?st1 y)"
    and m: "members st' = members ?st1" by blast
  have "fire_seq mem_broadcast sid (name # names) st = Inr st'"
    using f r by simp
  moreover have "\<forall>y. inbox st' y =
           (if y \<in> set (members st s) \<and> y \<noteq> sid
            then inbox st y @ map lifecycle_frame (name # names)
            else inbox st y)"
    using i by (simp add: inbox_deliver)
  moreover have "members st' = members st" using m by simp
  ultimately show ?case by blast
qed

theorem teardown_events_each_notify_witness:
  "listeners paired ''X'' = Some ''abc123''
   \<and> set [''close'', ''close''] \<subseteq> set teardown_events
   \<and> thrown (fire_seq mem_broadcast ''X'' [''close'', ''close''] paired) = None
   \<and> inbox (final (fire_seq mem_broadcast ''X'' [''close'', ''close''] paired)) ''Y''
       = [success_frame, Event ''USER_CLOSE'' (JNum 1) None, Event ''USER_CLOSE'' (JNum 1) None]
   \<and> members (final (fire_seq mem_broadcast ''X'' [''close'', ''close''] paired)) ''abc123''
       = [''X'', ''Y'']"
proof -
  have h1: "listeners paired ''X'' = Some ''abc123''" by (simp add: paired_facts)
  have h2: "set [''close'', ''close''] \<subseteq> set teardown_events" by (simp add: teardown_events_def)
  from teardown_events_each_notify [OF h1 h2]
  obtain st' where c: "fire_seq mem_broadcast ''X'' [''close'', ''close''] paired = Inr st'"
    and i: "\<forall>y. inbox st' y =
           (if y \<in> set (members paired ''abc123'') \<and> y \<noteq> ''X''
            then inbox paired y @ map lifecycle_frame [''close'', ''close'']
            else inbox paired y)"
    and m: "members st' = members paired" by blast
  from i have "inbox st' ''Y''
       = [success_frame, Event ''USER_CLOSE'' (JNum 1) None, Event ''USER_CLOSE'' (JNum 1) None]"
    by (simp add: paired_facts lifecycle_frame_def)
  with h1 h2 c m show ?thesis by (simp add: paired_facts)
qed

text \<open>
  C4, as the spec states it, fails: after the timeout event has fired on \<open>X\<close> and
  produced its frame, the close event and then the disconnect event for the same
  connection each produce a further lifecycle frame for \<open>Y\<close>.
\<close>

theorem teardown_not_exclusive_counterexample:
  "inbox (final (fire_seq mem_broadcast ''X'' [''timeout''] paired)) ''Y''
     = [success_frame, Event ''USER_TIMEOUT'' (JNum 1) None]
   \<and> inbox (final (fire_seq mem_broadcast ''X'' [''timeout'', ''close'', ''disconnect''] paired)) ''Y''
     = [success_frame, Event ''USER_TIMEOUT'' (JNum 1) None, Event ''USER_CLOSE'' (JNum 1) None,
        Event ''USER_DISCONNECT'' (JNum 1) None]"
proof -
  have t: "''timeout'' \<in> set teardown_events" "''close'' \<in> set teardown_events"
    "''disconnect'' \<in> set teardown_events"
    by (simp_all add: teardown_events_def)
  have l: "\<And>rs p st. listeners (deliver rs p st) ''X'' = listeners st ''X''" by simp
  show ?thesis
    by (simp add: fire_teardown_mem [OF _ t(1)] fire_teardown_mem [OF _ t(2)]
        fire_teardown_mem [OF _ t(3)] paired_facts inbox_deliver lifecycle_frame_def)
qed

subsection \<open>A broadcast that throws\<close>

text \<open>
  C8, as the code has it. The listeners have no error handling: when the broadcast of
  an application frame throws, the error leaves the listener at that point, uncaught,
  and reaches whoever called the listener; nothing is done after the failed broadcast,
  so the sender's callback is not invoked.
\<close>

theorem relay_error_leaves_listener:
  assumes "listeners st sid = Some s" and "tag \<in> set application_tags"
    and "bc s [sid] (emit_frame tag payload) st = Inl (e, st1)"
  shows "fire bc sid tag payload cb st = Inl (e, st1)"
  using assms by (simp add: fire_def on_event_application forward_and_ack_def)

theorem relay_error_leaves_listener_witness:
  "listeners paired ''X'' = Some ''abc123'' \<and> ''RUN_NFT_MINT'' \<in> set application_tags
   \<and> down_broadcast ''abc123'' [''X''] (Event ''RUN_NFT_MINT'' (JNum 7) None) paired
       = Inl (RelayError, paired)
   \<and> fire down_broadcast ''X'' ''RUN_NFT_MINT'' (Val (JNum 7)) (Fn 2) paired = Inl (RelayError, paired)
   \<and> acks paired = []"
proof -
  have h1: "listeners paired ''X'' = Some ''abc123''" by (simp add: paired_facts)
  have h2: "''RUN_NFT_MINT'' \<in> set application_tags" by (simp add: application_tags_def)
  have h3: "down_broadcast ''abc123'' [''X''] (emit_frame ''RUN_NFT_MINT'' (Val (JNum 7))) paired
       = Inl (RelayError, paired)" by (simp add: down_broadcast_def)
  from relay_error_leaves_listener [where bc = down_broadcast and cb = "Fn 2", OF h1 h2 h3] h1 h2 h3
  show ?thesis by (simp add: paired_facts)
qed

text \<open>
  C8, as the spec states it, fails in its first part: with the registry's store down,
  the RUN_NFT_MINT listener of \<open>X\<close> does not return; it ends with the relay error
  thrown, which nothing in the handler catches.
\<close>

theorem relay_error_uncaught_counterexample:
  "thrown (fire down_broadcast ''X'' ''RUN_NFT_MINT'' (Val (JObj [(''step'', JNum 1)])) (Fn 0) paired)
     = Some RelayError"
proof -
  have "''RUN_NFT_MINT'' \<in> set application_tags" by (simp add: application_tags_def)
  then show ?thesis
    by (simp add: fire_def paired_facts on_event_application forward_and_ack_def down_broadcast_def)
qed

subsection \<open>The log line of a join\<close>

lemma admit_logs:
  "logs (final (admit mem_broadcast sid s st)) = logs st @ [''socked '' @ sid @ '' joined to session '' @ s]"
  by (simp add: admit_mem)

text \<open>
  C7 does not hold of the code. When \<open>Y\<close> joins session \<open>abc123\<close>, where \<open>X\<close> already
  is, the room has two members after the join, and the line handed to the logger is
  \<open>socked Y joined to session abc123\<close>: the room size is not in it.
\<close>

theorem room_size_not_logged:
  "connect mem_broadcast ''Y'' (Some ''abc123'') joined_X = Inr paired
   \<and> length (members paired ''abc123'') = 2
   \<and> logs paired = logs joined_X @ [''socked Y joined to session abc123'']"
  by (simp add: paired_reached paired_facts) (simp add: paired_def joined_X_def)

section \<open>Properties of the user service\<close>

lemma getAllUsers_returns:
  "getAllUsers paginate page limit = Inr response \<longleftrightarrow>
     (\<exists>res. paginate (case page of None \<Rightarrow> 1 | Some p \<Rightarrow> p)
                      (case limit of None \<Rightarrow> 15 | Some l \<Rightarrow> l) = Inr res
          \<and> response = \<lparr>totalCount = totalDocs res, data = docs res,
                          hasNextPage = paginate_result.hasNextPage res,
                          hasPreviousPage = paginate_result.hasNextPage res\<rparr>)"
  by (auto simp: getAllUsers_def Let_def split: sum.splits)

text \<open>
  C9. Whatever the page, the limit and the result of the pagination, a response that
  \<open>getAllUsers\<close> returns has \<open>hasPreviousPage\<close> equal to \<open>hasNextPage\<close>: both are
  copies of the \<open>hasNextPage\<close> of the paginate result, whose \<open>hasPrevPage\<close> is not read.
\<close>

theorem getAllUsers_previous_is_next:
  assumes "getAllUsers paginate page limit = Inr response"
  shows "hasPreviousPage response = hasNextPage response"
  using assms by (auto simp: getAllUsers_returns)

theorem getAllUsers_previous_is_next_witness:
  "getAllUsers (\<lambda>p l. (Inr \<lparr>docs = [''u1'', ''u2''], totalDocs = 40, hasPrevPage = True,
                            hasNextPage = False\<rparr> :: unit + string paginate_result))
      (Some 20) (Some 2)
     = Inr \<lparr>totalCount = 40, data = [''u1'', ''u2''], hasNextPage = False, hasPreviousPage = False\<rparr>
   \<and> hasPreviousPage \<lparr>totalCount = 40, data = [''u1'', ''u2''], hasNextPage = False,
                       hasPreviousPage = False\<rparr>
       = hasNextPage \<lparr>totalCount = 40, data = [''u1'', ''u2''], hasNextPage = False,
                       hasPreviousPage = False\<rparr>"
proof -
  have h: "getAllUsers (\<lambda>p l. (Inr \<lparr>docs = [''u1'', ''u2''], totalDocs = 40, hasPrevPage = True,
                            hasNextPage = False\<rparr> :: unit + string paginate_result))
      (Some 20) (Some 2)
     = Inr \<lparr>totalCount = 40, data = [''u1'', ''u2''], hasNextPage = False, hasPreviousPage = False\<rparr>"
    by (simp add: getAllUsers_def)
  from getAllUsers_previous_is_next [OF h] h show ?thesis by simp
qed

text \<open>
  C10. When the indexer answers, \<open>getAccountBalance\<close> returns and does not throw: the
  default account, with both amounts "0", when the answer, its \<open>accountEntities\<close> or
  the \<open>nodes\<close> list is missing or the list is empty, and the first node of the list
  otherwise.
\<close>

theorem getAccountBalance_default_or_first:
  assumes "indexer id' = Inr result"
  shows "getAccountBalance indexer id' =
           Inr (case result of
                  None \<Rightarrow> \<lparr>capsAmount = ''0'', tiimeAmount = ''0''\<rparr>
                | Some r \<Rightarrow>
                    (case accountEntities r of
                       None \<Rightarrow> \<lparr>capsAmount = ''0'', tiimeAmount = ''0''\<rparr>
                     | Some ents \<Rightarrow>
                         (case nodes ents of
                            None \<Rightarrow> \<lparr>capsAmount = ''0'', tiimeAmount = ''0''\<rparr>
                          | Some [] \<Rightarrow> \<lparr>capsAmount = ''0'', tiimeAmount = ''0''\<rparr>
                          | Some (n # ns) \<Rightarrow> n)))"
  using assms by (simp add: getAccountBalance_def split: option.splits list.splits)

theorem getAccountBalance_default_or_first_witness:
  "getAccountBalance
     (\<lambda>i. (Inr (Some \<lparr>accountEntities = Some \<lparr>nodes = Some [\<lparr>capsAmount = ''12'', tiimeAmount = ''3''\<rparr>,
                                                            \<lparr>capsAmount = ''5'', tiimeAmount = ''0''\<rparr>]\<rparr>\<rparr>)
             :: unit + account_response option)) ''5Grw''
     = Inr \<lparr>capsAmount = ''12'', tiimeAmount = ''3''\<rparr>
   \<and> getAccountBalance
       (\<lambda>i. (Inr (Some \<lparr>accountEntities = Some \<lparr>nodes = Some []\<rparr>\<rparr>) :: unit + account_response option))
       ''5Grw''
     = Inr \<lparr>capsAmount = ''0'', tiimeAmount = ''0''\<rparr>
   \<and> getAccountBalance
       (\<lambda>i. (Inr (Some \<lparr>accountEntities = None\<rparr>) :: unit + account_response option)) ''5Grw''
     = Inr \<lparr>capsAmount = ''0'', tiimeAmount = ''0''\<rparr>"
proof -
  let ?two = "Some \<lparr>accountEntities = Some \<lparr>nodes = Some [\<lparr>capsAmount = ''12'', tiimeAmount = ''3''\<rparr>,
                                                            \<lparr>capsAmount = ''5'', tiimeAmount = ''0''\<rparr>]\<rparr>\<rparr>"
  let ?empty = "Some \<lparr>accountEntities = Some \<lparr>nodes = Some []\<rparr>\<rparr>"
  let ?missing = "Some \<lparr>accountEntities = None\<rparr>"
  from getAccountBalance_default_or_first
         [of "\<lambda>i. (Inr ?two :: unit + account_response option)" "''5Grw''" ?two]
       getAccountBalance_default_or_first
         [of "\<lambda>i. (Inr ?empty :: unit + account_response option)" "''5Grw''" ?empty]
       getAccountBalance_default_or_first
         [of "\<lambda>i. (Inr ?missing :: unit + account_response option)" "''5Grw''" ?missing]
  show ?thesis by simp
qed

end
